theory Spec2Isabelle
  imports Main "HOL-Library.Monad_Syntax"
begin

section \<open>JavaScript values, errors and completions\<close>

text \<open>
  The containers of \<^verbatim>\<open>src/ea02_EstructurasBasicas\<close> store arbitrary JavaScript values and
  never inspect them. A value is one of the primitive kinds or an opaque object identity.
  Numbers that the containers compute themselves (array lengths, the node counter) are
  non-negative integers far below \<open>2^53\<close>, where JavaScript's Number arithmetic is exact, so
  they are integers here; exhaustion of memory is not modelled.
\<close>

datatype jsval = JUndefined | JNull | JBool bool | JNum int | JStr string | JObj nat

text \<open>The built-in error classes; every one of them is a subclass of \<^verbatim>\<open>Error\<close>.\<close>

datatype js_error =
    Error string
  | TypeError string
  | RangeError string
  | ReferenceError string

fun instanceof_Error :: "js_error \<Rightarrow> bool" where
  "instanceof_Error (Error _) = True"
| "instanceof_Error (TypeError _) = True"
| "instanceof_Error (RangeError _) = True"
| "instanceof_Error (ReferenceError _) = True"

text \<open>A method call either returns a value or throws.\<close>

datatype completion = Return jsval | Throw js_error

fun is_Return :: "completion \<Rightarrow> bool" where
  "is_Return (Return _) = True"
| "is_Return (Throw _) = False"


section \<open>The array methods the containers use\<close>

text \<open>
  \<^verbatim>\<open>this.items\<close> is a dense JavaScript array that is only ever changed through
  \<^verbatim>\<open>push\<close>, \<^verbatim>\<open>pop\<close> and \<^verbatim>\<open>shift\<close>. Each method returns its result and the array
  after the call. On an empty array \<^verbatim>\<open>pop\<close> and \<^verbatim>\<open>shift\<close> return \<^verbatim>\<open>undefined\<close>
  and leave the array empty; they do not throw.
\<close>

type_synonym js_array = "jsval list"

definition Array_push :: "js_array \<Rightarrow> jsval \<Rightarrow> jsval \<times> js_array" where
  "Array_push a v = (JNum (int (length a) + 1), a @ [v])"

definition Array_pop :: "js_array \<Rightarrow> jsval \<times> js_array" where
  "Array_pop a = (if length a = 0 then (JUndefined, a) else (last a, butlast a))"

definition Array_shift :: "js_array \<Rightarrow> jsval \<times> js_array" where
  "Array_shift a = (if length a = 0 then (JUndefined, a) else (hd a, tl a))"


section \<open>Stack.mjs\<close>

record Stack =
  items :: js_array

definition new_Stack :: Stack where
  "new_Stack = \<lparr>Stack.items = []\<rparr>"

definition Stack_push :: "Stack \<Rightarrow> jsval \<Rightarrow> completion \<times> Stack" where
  "Stack_push s v =
     (case Array_push (Stack.items s) v of
        (_, a) \<Rightarrow> (Return JUndefined, s\<lparr>Stack.items := a\<rparr>))"

definition Stack_pop :: "Stack \<Rightarrow> completion \<times> Stack" where
  "Stack_pop s =
     (case Array_pop (Stack.items s) of
        (r, a) \<Rightarrow> (Return r, s\<lparr>Stack.items := a\<rparr>))"

definition Stack_isEmpty :: "Stack \<Rightarrow> bool" where
  "Stack_isEmpty s = (int (length (Stack.items s)) = 0)"

definition Stack_size :: "Stack \<Rightarrow> int" where
  "Stack_size s = int (length (Stack.items s))"

text \<open>A client: a sequence of mutating calls on one stack, with the completion of each.\<close>

datatype stack_op = Push jsval | Pop

fun Stack_call :: "Stack \<Rightarrow> stack_op \<Rightarrow> completion \<times> Stack" where
  "Stack_call s (Push v) = Stack_push s v"
| "Stack_call s Pop = Stack_pop s"

fun Stack_run :: "Stack \<Rightarrow> stack_op list \<Rightarrow> completion list \<times> Stack" where
  "Stack_run s [] = ([], s)"
| "Stack_run s (c # cs) =
     (case Stack_call s c of
        (r, s1) \<Rightarrow> (case Stack_run s1 cs of (rs, s2) \<Rightarrow> (r # rs, s2)))"

text \<open>
  The number of \<^verbatim>\<open>push\<close> calls of a sequence, and the number of its \<^verbatim>\<open>pop\<close> calls
  that found the stack non-empty (the calls that took an element out).
\<close>

fun Stack_added :: "stack_op list \<Rightarrow> nat" where
  "Stack_added [] = 0"
| "Stack_added (Push v # cs) = Suc (Stack_added cs)"
| "Stack_added (Pop # cs) = Stack_added cs"

fun Stack_removed :: "Stack \<Rightarrow> stack_op list \<Rightarrow> nat" where
  "Stack_removed s [] = 0"
| "Stack_removed s (c # cs) =
     (if c = Pop \<and> \<not> Stack_isEmpty s then 1 else 0) + Stack_removed (snd (Stack_call s c)) cs"


section \<open>Queue.mjs\<close>

record Queue =
  items :: js_array

definition new_Queue :: Queue where
  "new_Queue = \<lparr>Queue.items = []\<rparr>"

definition Queue_enqueue :: "Queue \<Rightarrow> jsval \<Rightarrow> completion \<times> Queue" where
  "Queue_enqueue q v =
     (case Array_push (Queue.items q) v of
        (_, a) \<Rightarrow> (Return JUndefined, q\<lparr>Queue.items := a\<rparr>))"

definition Queue_dequeue :: "Queue \<Rightarrow> completion \<times> Queue" where
  "Queue_dequeue q =
     (case Array_shift (Queue.items q) of
        (r, a) \<Rightarrow> (Return r, q\<lparr>Queue.items := a\<rparr>))"

definition Queue_isEmpty :: "Queue \<Rightarrow> bool" where
  "Queue_isEmpty q = (int (length (Queue.items q)) = 0)"

definition Queue_size :: "Queue \<Rightarrow> int" where
  "Queue_size q = int (length (Queue.items q))"

datatype queue_op = Enqueue jsval | Dequeue

fun Queue_call :: "Queue \<Rightarrow> queue_op \<Rightarrow> completion \<times> Queue" where
  "Queue_call q (Enqueue v) = Queue_enqueue q v"
| "Queue_call q Dequeue = Queue_dequeue q"

fun Queue_run :: "Queue \<Rightarrow> queue_op list \<Rightarrow> completion list \<times> Queue" where
  "Queue_run q [] = ([], q)"
| "Queue_run q (c # cs) =
     (case Queue_call q c of
        (r, q1) \<Rightarrow> (case Queue_run q1 cs of (rs, q2) \<Rightarrow> (r # rs, q2)))"

fun Queue_added :: "queue_op list \<Rightarrow> nat" where
  "Queue_added [] = 0"
| "Queue_added (Enqueue v # cs) = Suc (Queue_added cs)"
| "Queue_added (Dequeue # cs) = Queue_added cs"

fun Queue_removed :: "Queue \<Rightarrow> queue_op list \<Rightarrow> nat" where
  "Queue_removed q [] = 0"
| "Queue_removed q (c # cs) =
     (if c = Dequeue \<and> \<not> Queue_isEmpty q then 1 else 0)
       + Queue_removed (snd (Queue_call q c)) cs"


section \<open>Bag.mjs\<close>

record Bag =
  items :: js_array

definition new_Bag :: Bag where
  "new_Bag = \<lparr>Bag.items = []\<rparr>"

definition Bag_add :: "Bag \<Rightarrow> jsval \<Rightarrow> completion \<times> Bag" where
  "Bag_add b v =
     (case Array_push (Bag.items b) v of
        (_, a) \<Rightarrow> (Return JUndefined, b\<lparr>Bag.items := a\<rparr>))"

definition Bag_isEmpty :: "Bag \<Rightarrow> bool" where
  "Bag_isEmpty b = (int (length (Bag.items b)) = 0)"

definition Bag_size :: "Bag \<Rightarrow> int" where
  "Bag_size b = int (length (Bag.items b))"

text \<open>The bag has one mutating method, so a sequence of calls is the list of the items added.\<close>

fun Bag_run :: "Bag \<Rightarrow> jsval list \<Rightarrow> completion list \<times> Bag" where
  "Bag_run b [] = ([], b)"
| "Bag_run b (v # vs) =
     (case Bag_add b v of
        (r, b1) \<Rightarrow> (case Bag_run b1 vs of (rs, b2) \<Rightarrow> (r # rs, b2)))"


section \<open>ListaSimple.mjs\<close>

text \<open>
  \<^verbatim>\<open>Nodo\<close> objects live on a heap and are referred to by address. A reference is
  \<^verbatim>\<open>undefined\<close> (\<open>None\<close>: the value of a class field with no initialiser) or the address
  of an object. The heap is the list of the objects allocated so far; \<^verbatim>\<open>new Nodo()\<close>
  appends an object whose two fields are \<^verbatim>\<open>undefined\<close>. Looking up an address that was
  never allocated has no counterpart in JavaScript: such an access yields \<open>None\<close>, and so
  does every method that runs into one.
\<close>

type_synonym ref = "nat option"

record Nodo =
  item :: jsval
  sig :: ref

type_synonym heap = "Nodo list"

definition new_Nodo :: "heap \<Rightarrow> nat \<times> heap" where
  "new_Nodo h = (length h, h @ [\<lparr>item = JUndefined, sig = None\<rparr>])"

definition heap_get :: "heap \<Rightarrow> nat \<Rightarrow> Nodo option" where
  "heap_get h a = (if a < length h then Some (h ! a) else None)"

definition heap_put :: "heap \<Rightarrow> nat \<Rightarrow> Nodo \<Rightarrow> heap option" where
  "heap_put h a x = (if a < length h then Some (h[a := x]) else None)"

record ListaSimple =
  first :: ref
  n :: int

definition new_ListaSimple :: ListaSimple where
  "new_ListaSimple = \<lparr>first = None, n = 0\<rparr>"

definition ListaSimple_addHead ::
  "heap \<times> ListaSimple \<Rightarrow> jsval \<Rightarrow> (completion \<times> heap \<times> ListaSimple) option" where
  "ListaSimple_addHead hl v =
     (case hl of (h, l) \<Rightarrow>
        (case new_Nodo h of (x, h1) \<Rightarrow>
           do {
             x1 \<leftarrow> heap_get h1 x;
             h2 \<leftarrow> heap_put h1 x (x1\<lparr>item := v\<rparr>);
             x2 \<leftarrow> heap_get h2 x;
             h3 \<leftarrow> heap_put h2 x (x2\<lparr>sig := first l\<rparr>);
             let l1 = l\<lparr>first := Some x\<rparr>;
             let l2 = l1\<lparr>n := n l1 + 1\<rparr>;
             Some (Return JUndefined, h3, l2)
           }))"

text \<open>
  \<^verbatim>\<open>if (!this.#first) throw new Exception("Lista vacia")\<close>: the module neither declares nor
  imports \<^verbatim>\<open>Exception\<close> and JavaScript has no such global, so evaluating the identifier
  throws a \<^verbatim>\<open>ReferenceError\<close> before any object is constructed.
\<close>

definition ListaSimple_removeHead ::
  "heap \<times> ListaSimple \<Rightarrow> (completion \<times> heap \<times> ListaSimple) option" where
  "ListaSimple_removeHead hl =
     (case hl of (h, l) \<Rightarrow>
        (case first l of
           None \<Rightarrow> Some (Throw (ReferenceError ''Exception is not defined''), h, l)
         | Some a \<Rightarrow>
             do {
               x1 \<leftarrow> heap_get h a;
               let i = item x1;
               x2 \<leftarrow> heap_get h a;
               let l1 = l\<lparr>first := sig x2\<rparr>;
               let l2 = l1\<lparr>n := n l1 - 1\<rparr>;
               Some (Return i, h, l2)
             }))"

definition ListaSimple_isEmpty :: "ListaSimple \<Rightarrow> bool" where
  "ListaSimple_isEmpty l = (n l = 0)"

definition ListaSimple_size :: "ListaSimple \<Rightarrow> int" where
  "ListaSimple_size l = n l"

datatype lista_op = AddHead jsval | RemoveHead

fun ListaSimple_call ::
  "heap \<times> ListaSimple \<Rightarrow> lista_op \<Rightarrow> (completion \<times> heap \<times> ListaSimple) option" where
  "ListaSimple_call hl (AddHead v) = ListaSimple_addHead hl v"
| "ListaSimple_call hl RemoveHead = ListaSimple_removeHead hl"

text \<open>
  A client that goes on after a call has thrown (it caught the exception): the list is then
  in the state the throwing call left it in.
\<close>

fun ListaSimple_run ::
  "heap \<times> ListaSimple \<Rightarrow> lista_op list \<Rightarrow> (completion list \<times> heap \<times> ListaSimple) option" where
  "ListaSimple_run hl [] = Some ([], hl)"
| "ListaSimple_run hl (c # cs) =
     do {
       (r, hl1) \<leftarrow> ListaSimple_call hl c;
       (rs, hl2) \<leftarrow> ListaSimple_run hl1 cs;
       Some (r # rs, hl2)
     }"

text \<open>
  The number of \<^verbatim>\<open>addHead\<close> calls of a sequence, and the number of its
  \<^verbatim>\<open>removeHead\<close> calls that returned, given the completions of the calls.
\<close>

fun ListaSimple_added :: "lista_op list \<Rightarrow> nat" where
  "ListaSimple_added [] = 0"
| "ListaSimple_added (AddHead v # cs) = Suc (ListaSimple_added cs)"
| "ListaSimple_added (RemoveHead # cs) = ListaSimple_added cs"

fun ListaSimple_removed :: "lista_op list \<Rightarrow> completion list \<Rightarrow> nat" where
  "ListaSimple_removed (c # cs) (r # rs) =
     (if c = RemoveHead \<and> is_Return r then 1 else 0) + ListaSimple_removed cs rs"
| "ListaSimple_removed _ _ = 0"

text \<open>
  The chain of nodes that starts at a reference and follows \<^verbatim>\<open>sig\<close> until it is
  \<^verbatim>\<open>undefined\<close>: \<open>chain h p adrs\<close> holds when \<open>adrs\<close> are the addresses of these nodes,
  in order.
\<close>

fun chain :: "heap \<Rightarrow> ref \<Rightarrow> nat list \<Rightarrow> bool" where
  "chain h p [] = (p = None)"
| "chain h p (a # adrs) =
     (p = Some a \<and> (case heap_get h a of None \<Rightarrow> False | Some x \<Rightarrow> chain h (sig x) adrs))"

text \<open>
  The representation invariant of a list whose nodes are at the addresses \<open>adrs\<close>: the
  chain from \<^verbatim>\<open>#first\<close> visits exactly these nodes, each once, and \<^verbatim>\<open>#n\<close> is their
  number.
\<close>

definition ListaSimple_inv :: "heap \<Rightarrow> ListaSimple \<Rightarrow> nat list \<Rightarrow> bool" where
  "ListaSimple_inv h l adrs =
     (chain h (first l) adrs \<and> distinct adrs \<and> n l = int (length adrs))"


section \<open>The methods in closed form\<close>

lemma Stack_push_eq:
  "Stack_push s v = (Return JUndefined, s\<lparr>Stack.items := Stack.items s @ [v]\<rparr>)"
  by (simp add: Stack_push_def Array_push_def)

lemma Stack_pop_eq:
  "Stack_pop s =
     (if Stack.items s = [] then (Return JUndefined, s)
      else (Return (last (Stack.items s)), s\<lparr>Stack.items := butlast (Stack.items s)\<rparr>))"
  by (simp add: Stack_pop_def Array_pop_def)

lemma Queue_enqueue_eq:
  "Queue_enqueue q v = (Return JUndefined, q\<lparr>Queue.items := Queue.items q @ [v]\<rparr>)"
  by (simp add: Queue_enqueue_def Array_push_def)

lemma Queue_dequeue_eq:
  "Queue_dequeue q =
     (if Queue.items q = [] then (Return JUndefined, q)
      else (Return (hd (Queue.items q)), q\<lparr>Queue.items := tl (Queue.items q)\<rparr>))"
  by (simp add: Queue_dequeue_def Array_shift_def)

lemma Bag_add_eq:
  "Bag_add b v = (Return JUndefined, b\<lparr>Bag.items := Bag.items b @ [v]\<rparr>)"
  by (simp add: Bag_add_def Array_push_def)



section \<open>Sequences of calls\<close>

lemma Stack_run_snd:
  "snd (Stack_run s (c # cs)) = snd (Stack_run (snd (Stack_call s c)) cs)"
  by (simp split: prod.splits)

lemma Queue_run_snd:
  "snd (Queue_run q (c # cs)) = snd (Queue_run (snd (Queue_call q c)) cs)"
  by (simp split: prod.splits)

lemma Bag_run_snd:
  "snd (Bag_run b (v # vs)) = snd (Bag_run (snd (Bag_add b v)) vs)"
  by (simp split: prod.splits)

lemma Stack_run_size:
  "Stack_size (snd (Stack_run s cs)) =
     Stack_size s + int (Stack_added cs) - int (Stack_removed s cs)"
proof (induction cs arbitrary: s)
  case Nil
  show ?case by simp
next
  case (Cons c cs)
  show ?case
  proof (cases c)
    case (Push v)
    with Cons [of "snd (Stack_push s v)"] show ?thesis
      by (simp add: Stack_run_snd Stack_push_eq Stack_size_def del: Stack_run.simps)
  next
    case Pop
    with Cons [of "snd (Stack_pop s)"] show ?thesis
      by (cases "Stack.items s")
        (simp_all add: Stack_run_snd Stack_pop_eq Stack_size_def Stack_isEmpty_def
          del: Stack_run.simps)
  qed
qed

lemma Queue_run_size:
  "Queue_size (snd (Queue_run q cs)) =
     Queue_size q + int (Queue_added cs) - int (Queue_removed q cs)"
proof (induction cs arbitrary: q)
  case Nil
  show ?case by simp
next
  case (Cons c cs)
  show ?case
  proof (cases c)
    case (Enqueue v)
    with Cons [of "snd (Queue_enqueue q v)"] show ?thesis
      by (simp add: Queue_run_snd Queue_enqueue_eq Queue_size_def del: Queue_run.simps)
  next
    case Dequeue
    with Cons [of "snd (Queue_dequeue q)"] show ?thesis
      by (cases "Queue.items q")
        (simp_all add: Queue_run_snd Queue_dequeue_eq Queue_size_def Queue_isEmpty_def
          del: Queue_run.simps)
  qed
qed

lemma Bag_run_size: "Bag_size (snd (Bag_run b vs)) = Bag_size b + int (length vs)"
proof (induction vs arbitrary: b)
  case Nil
  show ?case by simp
next
  case (Cons v vs)
  from Cons [of "snd (Bag_add b v)"] show ?case
    by (simp add: Bag_run_snd Bag_add_eq Bag_size_def del: Bag_run.simps)
qed

lemma heap_get_append: "a < length h \<Longrightarrow> heap_get (h @ xs) a = heap_get h a"
  by (simp add: heap_get_def nth_append)

lemma chain_bound: "chain h p adrs \<Longrightarrow> a \<in> set adrs \<Longrightarrow> a < length h"
proof (induction adrs arbitrary: p)
  case Nil
  then show ?case by simp
next
  case (Cons b adrs)
  then show ?case
    by (auto simp: heap_get_def split: if_splits)
qed

lemma chain_append: "chain h p adrs \<Longrightarrow> chain (h @ xs) p adrs"
proof (induction adrs arbitrary: p)
  case Nil
  then show ?case by simp
next
  case (Cons b adrs)
  from Cons.prems have b: "b < length h"
    by (simp add: heap_get_def split: if_splits)
  with Cons show ?case
    by (auto simp: heap_get_append split: option.splits)
qed

lemma ListaSimple_addHead_eq:
  "ListaSimple_addHead (h, l) v =
     Some (Return JUndefined, h @ [\<lparr>item = v, sig = first l\<rparr>],
           l\<lparr>first := Some (length h), n := n l + 1\<rparr>)"
  by (simp add: ListaSimple_addHead_def new_Nodo_def heap_get_def heap_put_def)

lemma ListaSimple_addHead_inv:
  assumes "ListaSimple_inv h l adrs"
  shows "ListaSimple_inv (h @ [\<lparr>item = v, sig = first l\<rparr>])
           (l\<lparr>first := Some (length h), n := n l + 1\<rparr>) (length h # adrs)"
proof -
  from assms have c: "chain h (first l) adrs" and d: "distinct adrs"
    and k: "n l = int (length adrs)"
    by (simp_all add: ListaSimple_inv_def)
  have fresh: "length h \<notin> set adrs"
    using chain_bound [OF c] by blast
  from chain_append [OF c] fresh d k show ?thesis
    by (simp add: ListaSimple_inv_def heap_get_def)
qed

lemma ListaSimple_removeHead_empty:
  "first l = None \<Longrightarrow>
   ListaSimple_removeHead (h, l) =
     Some (Throw (ReferenceError ''Exception is not defined''), h, l)"
  by (simp add: ListaSimple_removeHead_def)

lemma ListaSimple_removeHead_inv:
  assumes "ListaSimple_inv h l (a # adrs)"
  shows "\<exists>i l'. ListaSimple_removeHead (h, l) = Some (Return i, h, l')
           \<and> ListaSimple_inv h l' adrs \<and> n l' = n l - 1"
proof -
  from assms obtain x where f: "first l = Some a" and g: "heap_get h a = Some x"
    and c: "chain h (sig x) adrs" and d: "distinct adrs" and k: "n l = int (length adrs) + 1"
    by (auto simp: ListaSimple_inv_def split: option.splits)
  then show ?thesis
    by (simp add: ListaSimple_removeHead_def ListaSimple_inv_def)
qed

lemma ListaSimple_inv_empty: "ListaSimple_inv h l adrs \<Longrightarrow> (n l = 0) = (first l = None)"
  by (cases adrs) (auto simp: ListaSimple_inv_def)

lemma ListaSimple_inv_new: "ListaSimple_inv h new_ListaSimple []"
  by (simp add: ListaSimple_inv_def new_ListaSimple_def)

lemma ListaSimple_call_inv:
  assumes "ListaSimple_inv h l adrs"
  shows "\<exists>r h' l' adrs'. ListaSimple_call (h, l) c = Some (r, h', l')
           \<and> ListaSimple_inv h' l' adrs'
           \<and> n l' = n l + int (ListaSimple_added [c]) - int (ListaSimple_removed [c] [r])"
proof (cases c)
  case (AddHead v)
  with ListaSimple_addHead_inv [OF assms, of v] show ?thesis
    by (auto simp: ListaSimple_addHead_eq)
next
  case RemoveHead
  show ?thesis
  proof (cases adrs)
    case Nil
    with assms have "first l = None"
      by (simp add: ListaSimple_inv_def)
    with RemoveHead assms show ?thesis
      by (auto simp: ListaSimple_removeHead_empty)
  next
    case (Cons a bs)
    with ListaSimple_removeHead_inv [of h l a bs] assms obtain i l' where
      "ListaSimple_removeHead (h, l) = Some (Return i, h, l')"
      "ListaSimple_inv h l' bs" "n l' = n l - 1"
      by blast
    with RemoveHead show ?thesis
      by simp blast
  qed
qed

lemma ListaSimple_run_inv:
  "ListaSimple_inv h l adrs \<Longrightarrow>
   \<exists>rs h' l' adrs'. ListaSimple_run (h, l) cs = Some (rs, h', l')
      \<and> ListaSimple_inv h' l' adrs'
      \<and> n l' = n l + int (ListaSimple_added cs) - int (ListaSimple_removed cs rs)"
proof (induction cs arbitrary: h l adrs)
  case Nil
  then show ?case by auto
next
  case (Cons c cs)
  from ListaSimple_call_inv [OF Cons.prems, of c]
  obtain r h1 l1 adrs1 where
    s: "ListaSimple_call (h, l) c = Some (r, h1, l1)" and i: "ListaSimple_inv h1 l1 adrs1"
    and k: "n l1 = n l + int (ListaSimple_added [c]) - int (ListaSimple_removed [c] [r])"
    by blast
  from Cons.IH [OF i]
  obtain rs h2 l2 adrs2 where
    s2: "ListaSimple_run (h1, l1) cs = Some (rs, h2, l2)" and i2: "ListaSimple_inv h2 l2 adrs2"
    and k2: "n l2 = n l1 + int (ListaSimple_added cs) - int (ListaSimple_removed cs rs)"
    by blast
  have "ListaSimple_run (h, l) (c # cs) = Some (r # rs, h2, l2)"
    using s s2 by simp
  moreover have "n l2 = n l + int (ListaSimple_added (c # cs))
      - int (ListaSimple_removed (c # cs) (r # rs))"
    using k k2 by (cases c) auto
  ultimately show ?case
    using i2 by blast
qed


section \<open>The assertions at the end of each module\<close>

text \<open>
  Each module ends with a few \<^verbatim>\<open>assert\<close> calls on one container. They hold of the
  definitions above.
\<close>

lemma Stack_inline_tests:
  "Stack_isEmpty new_Stack \<and> Stack_size new_Stack = 0
   \<and> (case Stack_run new_Stack [Push (JNum 1), Push (JStr ''Hola'')] of
        (rs, s2) \<Rightarrow>
          Stack_size s2 = 2 \<and>
          fst (Stack_run s2 [Pop, Pop]) = [Return (JStr ''Hola''), Return (JNum 1)])"
  by (simp add: Stack_push_eq Stack_pop_eq Stack_size_def Stack_isEmpty_def new_Stack_def)

lemma Queue_inline_tests:
  "Queue_isEmpty new_Queue \<and> Queue_size new_Queue = 0
   \<and> (case Queue_run new_Queue [Enqueue (JNum 1), Enqueue (JStr ''Hola'')] of
        (rs, q2) \<Rightarrow>
          Queue_size q2 = 2 \<and>
          fst (Queue_run q2 [Dequeue, Dequeue]) = [Return (JNum 1), Return (JStr ''Hola'')])"
  by (simp add: Queue_enqueue_eq Queue_dequeue_eq Queue_size_def Queue_isEmpty_def new_Queue_def)

lemma Bag_inline_tests:
  "Bag_isEmpty new_Bag \<and> Bag_size new_Bag = 0
   \<and> Bag_size (snd (Bag_run new_Bag [JNum 1, JStr ''Hola''])) = 2"
  by (simp add: Bag_add_eq Bag_size_def Bag_isEmpty_def new_Bag_def)

lemma ListaSimple_inline_tests:
  "ListaSimple_isEmpty new_ListaSimple \<and> ListaSimple_size new_ListaSimple = 0
   \<and> (case ListaSimple_run ([], new_ListaSimple)
          [AddHead (JNum 1), AddHead (JNum 2), AddHead (JStr ''Hola''), AddHead (JStr ''Mundo'')] of
        None \<Rightarrow> False
      | Some (rs, h4, l4) \<Rightarrow>
          \<not> ListaSimple_isEmpty l4 \<and> ListaSimple_size l4 = 4 \<and>
          (case ListaSimple_removeHead (h4, l4) of
             None \<Rightarrow> False
           | Some (r, h3, l3) \<Rightarrow>
               r = Return (JStr ''Mundo'') \<and> ListaSimple_size l3 = 3 \<and>
               (case ListaSimple_run (h3, l3) [RemoveHead, RemoveHead, RemoveHead] of
                  None \<Rightarrow> False
                | Some (rs', h0, l0) \<Rightarrow> ListaSimple_isEmpty l0 \<and> ListaSimple_size l0 = 0)))"
  by (simp add: ListaSimple_addHead_eq ListaSimple_removeHead_def heap_get_def
      ListaSimple_isEmpty_def ListaSimple_size_def new_ListaSimple_def)


section \<open>Removing from an empty container\<close>

text \<open>
  C1. The specification asks every variant to raise an Error-class exception when the
  remove operation is called on a container of size 0, and to leave the size at 0. The
  array-backed variants do not raise: on a freshly constructed \<^verbatim>\<open>Stack\<close>,
  \<^verbatim>\<open>pop()\<close> returns \<^verbatim>\<open>undefined\<close> as an ordinary result, and so does
  \<^verbatim>\<open>dequeue()\<close> on a freshly constructed \<^verbatim>\<open>Queue\<close>. The linked list does raise
  on the same input, and what it throws is an instance of \<^verbatim>\<open>Error\<close>.
\<close>

theorem array_remove_on_empty_does_not_throw:
  "Stack_size new_Stack = 0
   \<and> Stack_pop new_Stack = (Return JUndefined, new_Stack)
   \<and> Queue_size new_Queue = 0
   \<and> Queue_dequeue new_Queue = (Return JUndefined, new_Queue)
   \<and> ListaSimple_size new_ListaSimple = 0
   \<and> ListaSimple_removeHead ([], new_ListaSimple) =
       Some (Throw (ReferenceError ''Exception is not defined''), [], new_ListaSimple)
   \<and> instanceof_Error (ReferenceError ''Exception is not defined'')"
  by (simp add: Stack_pop_eq Queue_dequeue_eq Stack_size_def Queue_size_def
      new_Stack_def new_Queue_def ListaSimple_size_def ListaSimple_removeHead_def
      new_ListaSimple_def)

text \<open>
  C9. For the array-backed \<^verbatim>\<open>Stack\<close> and \<^verbatim>\<open>Queue\<close>, \<^verbatim>\<open>pop()\<close> and
  \<^verbatim>\<open>dequeue()\<close> on an empty container throw nothing: the call returns
  \<^verbatim>\<open>undefined\<close>, the container is the same as before, still empty and of size 0.
\<close>

theorem empty_remove_returns_undefined:
  "(Stack_isEmpty s \<longrightarrow>
      Stack_pop s = (Return JUndefined, s) \<and> Stack_size (snd (Stack_pop s)) = 0
      \<and> Stack_isEmpty (snd (Stack_pop s)))
   \<and> (Queue_isEmpty q \<longrightarrow>
      Queue_dequeue q = (Return JUndefined, q) \<and> Queue_size (snd (Queue_dequeue q)) = 0
      \<and> Queue_isEmpty (snd (Queue_dequeue q)))"
  by (simp add: Stack_pop_eq Queue_dequeue_eq Stack_size_def Queue_size_def
      Stack_isEmpty_def Queue_isEmpty_def)

theorem empty_remove_returns_undefined_witness:
  "Stack_isEmpty new_Stack \<and> Stack_pop new_Stack = (Return JUndefined, new_Stack)
   \<and> Stack_size (snd (Stack_pop new_Stack)) = 0
   \<and> Queue_isEmpty new_Queue \<and> Queue_dequeue new_Queue = (Return JUndefined, new_Queue)
   \<and> Queue_size (snd (Queue_dequeue new_Queue)) = 0"
proof -
  have e: "Stack_isEmpty new_Stack" "Queue_isEmpty new_Queue"
    by (simp_all add: Stack_isEmpty_def new_Stack_def Queue_isEmpty_def new_Queue_def)
  from empty_remove_returns_undefined [of new_Stack new_Queue] e show ?thesis
    by (simp add: Stack_size_def new_Stack_def Queue_size_def new_Queue_def)
qed


section \<open>Adding an absent item\<close>

text \<open>
  C2. The specification asks every variant to raise a TypeError-class error when the add
  operation is given \<^verbatim>\<open>null\<close> or \<^verbatim>\<open>undefined\<close>, and to leave the container
  unchanged. No variant checks its argument. On freshly constructed containers, \<^verbatim>\<open>push(null)\<close>,
  \<^verbatim>\<open>enqueue(undefined)\<close>, \<^verbatim>\<open>add(null)\<close> and \<^verbatim>\<open>addHead(null)\<close> all return
  normally and store the absent value; the size goes from 0 to 1.
\<close>

theorem add_accepts_absent_item:
  "Stack_push new_Stack JNull = (Return JUndefined, \<lparr>Stack.items = [JNull]\<rparr>)
   \<and> Stack_size (snd (Stack_push new_Stack JNull)) = 1
   \<and> Queue_enqueue new_Queue JUndefined = (Return JUndefined, \<lparr>Queue.items = [JUndefined]\<rparr>)
   \<and> Queue_size (snd (Queue_enqueue new_Queue JUndefined)) = 1
   \<and> Bag_add new_Bag JNull = (Return JUndefined, \<lparr>Bag.items = [JNull]\<rparr>)
   \<and> Bag_size (snd (Bag_add new_Bag JNull)) = 1
   \<and> ListaSimple_addHead ([], new_ListaSimple) JNull =
       Some (Return JUndefined, [\<lparr>item = JNull, sig = None\<rparr>], \<lparr>first = Some 0, n = 1\<rparr>)"
  by (simp add: Stack_push_eq Queue_enqueue_eq Bag_add_eq Stack_size_def Queue_size_def
      Bag_size_def new_Stack_def new_Queue_def new_Bag_def ListaSimple_addHead_def
      new_Nodo_def heap_get_def heap_put_def new_ListaSimple_def)


section \<open>Order of removal\<close>

text \<open>
  C4. LIFO order law. Pushing \<open>a\<close>, \<open>b\<close>, \<open>c\<close> onto any stack and popping three times
  yields \<open>c\<close>, then \<open>b\<close>, then \<open>a\<close> (and gives the stack back as it was). After pushing 1,
  2, "Hola", "Mundo" onto an empty stack the size is 4; one pop returns "Mundo" and leaves
  the size at 3; three further pops leave the stack empty, of size 0.
\<close>

theorem stack_lifo:
  "Stack_run s [Push a, Push b, Push c, Pop, Pop, Pop] =
     ([Return JUndefined, Return JUndefined, Return JUndefined, Return c, Return b, Return a], s)
   \<and> (case Stack_run new_Stack
          [Push (JNum 1), Push (JNum 2), Push (JStr ''Hola''), Push (JStr ''Mundo'')] of
        (rs, s4) \<Rightarrow>
          Stack_size s4 = 4 \<and>
          (case Stack_pop s4 of
             (r, s3) \<Rightarrow>
               r = Return (JStr ''Mundo'') \<and> Stack_size s3 = 3 \<and>
               (case Stack_run s3 [Pop, Pop, Pop] of
                  (rs', s0) \<Rightarrow> Stack_size s0 = 0 \<and> Stack_isEmpty s0)))"
  by (simp add: Stack_push_eq Stack_pop_eq Stack_size_def Stack_isEmpty_def new_Stack_def)

text \<open>
  C5. FIFO order law. Stated for any queue, the law fails on a queue that already holds an
  item: after enqueuing 1, 2, 3 into a queue that holds 0, the three dequeues
  yield 0, 1, 2.
\<close>

theorem queue_fifo_nonempty_counterexample:
  "fst (Queue_run (snd (Queue_enqueue new_Queue (JNum 0)))
          [Enqueue (JNum 1), Enqueue (JNum 2), Enqueue (JNum 3), Dequeue, Dequeue, Dequeue])
   \<noteq> [Return JUndefined, Return JUndefined, Return JUndefined,
       Return (JNum 1), Return (JNum 2), Return (JNum 3)]"
  by (simp add: Queue_enqueue_eq Queue_dequeue_eq new_Queue_def)

text \<open>
  C5, amended. Enqueuing \<open>a\<close>, \<open>b\<close>, \<open>c\<close> into any empty queue and dequeuing three times
  yields \<open>a\<close>, then \<open>b\<close>, then \<open>c\<close> (and leaves the queue empty again). After enqueuing 1
  and "Hola" into a new queue the size is 2; the first dequeue returns 1, the second
  returns "Hola", and the queue is then empty.
\<close>

theorem queue_fifo:
  assumes "Queue_isEmpty q"
  shows "Queue_run q [Enqueue a, Enqueue b, Enqueue c, Dequeue, Dequeue, Dequeue] =
     ([Return JUndefined, Return JUndefined, Return JUndefined, Return a, Return b, Return c], q)
   \<and> (case Queue_run new_Queue [Enqueue (JNum 1), Enqueue (JStr ''Hola'')] of
        (rs, q2) \<Rightarrow>
          Queue_size q2 = 2 \<and>
          (case Queue_dequeue q2 of
             (r1, q1) \<Rightarrow>
               r1 = Return (JNum 1) \<and>
               (case Queue_dequeue q1 of
                  (r0, q0) \<Rightarrow>
                    r0 = Return (JStr ''Hola'') \<and> Queue_isEmpty q0 \<and> Queue_size q0 = 0)))"
  using assms
  by (simp add: Queue_enqueue_eq Queue_dequeue_eq Queue_size_def Queue_isEmpty_def new_Queue_def)

theorem queue_fifo_witness:
  "Queue_isEmpty new_Queue
   \<and> Queue_run new_Queue
        [Enqueue (JNum 7), Enqueue (JNum 8), Enqueue (JNum 9), Dequeue, Dequeue, Dequeue] =
       ([Return JUndefined, Return JUndefined, Return JUndefined,
         Return (JNum 7), Return (JNum 8), Return (JNum 9)], new_Queue)"
proof -
  have e: "Queue_isEmpty new_Queue"
    by (simp add: Queue_isEmpty_def new_Queue_def)
  from queue_fifo [OF e, of "JNum 7" "JNum 8" "JNum 9"] e show ?thesis
    by simp
qed


section \<open>Size and emptiness\<close>

text \<open>
  C3. For every variant (\<^verbatim>\<open>Stack\<close>, \<^verbatim>\<open>Queue\<close>, \<^verbatim>\<open>Bag\<close>, \<^verbatim>\<open>ListaSimple\<close>) and
  every finite sequence of add and remove calls on a freshly constructed container,
  \<^verbatim>\<open>size()\<close> is 0 exactly when \<^verbatim>\<open>isEmpty()\<close> is true. For the linked list the
  sequence runs to its end in any heap \<open>h0\<close>.
\<close>

theorem size_zero_iff_isEmpty:
  "(Stack_size (snd (Stack_run new_Stack sops)) = 0)
      = Stack_isEmpty (snd (Stack_run new_Stack sops))
   \<and> (Queue_size (snd (Queue_run new_Queue qops)) = 0)
      = Queue_isEmpty (snd (Queue_run new_Queue qops))
   \<and> (Bag_size (snd (Bag_run new_Bag vs)) = 0) = Bag_isEmpty (snd (Bag_run new_Bag vs))
   \<and> (\<exists>rs h l. ListaSimple_run (h0, new_ListaSimple) lops = Some (rs, h, l)
          \<and> (ListaSimple_size l = 0) = ListaSimple_isEmpty l)"
proof -
  from ListaSimple_run_inv [OF ListaSimple_inv_new, of h0 lops]
  obtain rs h l where "ListaSimple_run (h0, new_ListaSimple) lops = Some (rs, h, l)"
    by blast
  then show ?thesis
    by (simp add: Stack_size_def Stack_isEmpty_def Queue_size_def Queue_isEmpty_def
        Bag_size_def Bag_isEmpty_def ListaSimple_size_def ListaSimple_isEmpty_def)
qed

text \<open>
  C6. For every variant, after any sequence of calls on a freshly constructed container
  with \<open>n\<close> add calls and \<open>m\<close> successful remove calls, \<open>m \<le> n\<close> and \<^verbatim>\<open>size()\<close> is
  \<open>n - m\<close>. A remove call is successful when it takes an element out: for
  \<^verbatim>\<open>ListaSimple\<close> these are the \<^verbatim>\<open>removeHead\<close> calls that return rather than throw,
  for \<^verbatim>\<open>Stack\<close> and \<^verbatim>\<open>Queue\<close> (whose remove never throws) the \<^verbatim>\<open>pop\<close> and
  \<^verbatim>\<open>dequeue\<close> calls on a non-empty container. The bag has no remove operation.
\<close>

theorem size_is_adds_minus_removes:
  "Stack_removed new_Stack sops \<le> Stack_added sops
   \<and> Stack_size (snd (Stack_run new_Stack sops)) =
       int (Stack_added sops) - int (Stack_removed new_Stack sops)
   \<and> Queue_removed new_Queue qops \<le> Queue_added qops
   \<and> Queue_size (snd (Queue_run new_Queue qops)) =
       int (Queue_added qops) - int (Queue_removed new_Queue qops)
   \<and> Bag_size (snd (Bag_run new_Bag vs)) = int (length vs)
   \<and> (\<exists>rs h l. ListaSimple_run (h0, new_ListaSimple) lops = Some (rs, h, l)
          \<and> ListaSimple_removed lops rs \<le> ListaSimple_added lops
          \<and> ListaSimple_size l =
              int (ListaSimple_added lops) - int (ListaSimple_removed lops rs))"
proof -
  have s: "Stack_size (snd (Stack_run new_Stack sops)) =
       int (Stack_added sops) - int (Stack_removed new_Stack sops)"
    using Stack_run_size [of new_Stack sops] by (simp add: Stack_size_def new_Stack_def)
  have "0 \<le> Stack_size (snd (Stack_run new_Stack sops))"
    by (simp add: Stack_size_def)
  with s have s': "Stack_removed new_Stack sops \<le> Stack_added sops"
    by linarith
  have q: "Queue_size (snd (Queue_run new_Queue qops)) =
       int (Queue_added qops) - int (Queue_removed new_Queue qops)"
    using Queue_run_size [of new_Queue qops] by (simp add: Queue_size_def new_Queue_def)
  have "0 \<le> Queue_size (snd (Queue_run new_Queue qops))"
    by (simp add: Queue_size_def)
  with q have q': "Queue_removed new_Queue qops \<le> Queue_added qops"
    by linarith
  have b: "Bag_size (snd (Bag_run new_Bag vs)) = int (length vs)"
    using Bag_run_size [of new_Bag vs] by (simp add: Bag_size_def new_Bag_def)
  from ListaSimple_run_inv [OF ListaSimple_inv_new, of h0 lops]
  obtain rs h l adrs where r: "ListaSimple_run (h0, new_ListaSimple) lops = Some (rs, h, l)"
    and i: "ListaSimple_inv h l adrs"
    and k: "n l = n new_ListaSimple + int (ListaSimple_added lops)
              - int (ListaSimple_removed lops rs)"
    by blast
  from k have k': "ListaSimple_size l =
      int (ListaSimple_added lops) - int (ListaSimple_removed lops rs)"
    by (simp add: ListaSimple_size_def new_ListaSimple_def)
  from i have "0 \<le> ListaSimple_size l"
    by (simp add: ListaSimple_inv_def ListaSimple_size_def)
  with k' have "ListaSimple_removed lops rs \<le> ListaSimple_added lops"
    by linarith
  with r k' have "\<exists>rs h l. ListaSimple_run (h0, new_ListaSimple) lops = Some (rs, h, l)
          \<and> ListaSimple_removed lops rs \<le> ListaSimple_added lops
          \<and> ListaSimple_size l =
              int (ListaSimple_added lops) - int (ListaSimple_removed lops rs)"
    by blast
  with s s' q q' b show ?thesis
    by blast
qed


section \<open>The representation invariant of the linked list\<close>

text \<open>
  C7. Linked-representation invariant of \<^verbatim>\<open>ListaSimple\<close>. After every sequence of
  \<^verbatim>\<open>addHead\<close> and \<^verbatim>\<open>removeHead\<close> calls on a freshly constructed list (the calls that
  throw included; \<^verbatim>\<open>isEmpty\<close> and \<^verbatim>\<open>size\<close> assign nothing), the count \<^verbatim>\<open>#n\<close> is 0
  exactly when \<^verbatim>\<open>#first\<close> is absent, and the \<^verbatim>\<open>sig\<close> chain from \<^verbatim>\<open>#first\<close> ends in
  an absent reference after passing through \<^verbatim>\<open>#n\<close> distinct nodes.
\<close>

theorem ListaSimple_count_matches_chain:
  "\<exists>rs h l adrs. ListaSimple_run (h0, new_ListaSimple) cs = Some (rs, h, l)
      \<and> (n l = 0) = (first l = None)
      \<and> chain h (first l) adrs \<and> distinct adrs \<and> n l = int (length adrs)"
proof -
  from ListaSimple_run_inv [OF ListaSimple_inv_new, of h0 cs]
  obtain rs h l adrs where r: "ListaSimple_run (h0, new_ListaSimple) cs = Some (rs, h, l)"
    and i: "ListaSimple_inv h l adrs"
    by blast
  from i have e: "(n l = 0) = (first l = None)"
    by (rule ListaSimple_inv_empty)
  from i have c: "chain h (first l) adrs" "distinct adrs" "n l = int (length adrs)"
    by (simp_all add: ListaSimple_inv_def)
  show ?thesis
    by (rule exI [of _ rs], rule exI [of _ h], rule exI [of _ l], rule exI [of _ adrs])
      (intro conjI r e c)
qed

text \<open>
  C10. \<^verbatim>\<open>removeHead()\<close> on an empty \<^verbatim>\<open>ListaSimple\<close> (one that a sequence of calls on
  a freshly constructed list has left with \<^verbatim>\<open>size()\<close> 0) throws: the value thrown is the
  \<^verbatim>\<open>ReferenceError\<close> of the undefined identifier \<^verbatim>\<open>Exception\<close>. The heap and the list
  are as before the call: \<^verbatim>\<open>size()\<close> is still 0 and \<^verbatim>\<open>#first\<close> is still absent.
\<close>

theorem removeHead_on_empty_throws:
  assumes "ListaSimple_run (h0, new_ListaSimple) cs = Some (rs, h, l)"
    and "ListaSimple_size l = 0"
  shows "ListaSimple_removeHead (h, l) =
           Some (Throw (ReferenceError ''Exception is not defined''), h, l)
         \<and> ListaSimple_size l = 0 \<and> first l = None"
proof -
  from ListaSimple_run_inv [OF ListaSimple_inv_new, of h0 cs] assms(1)
  obtain adrs where "ListaSimple_inv h l adrs"
    by auto
  with assms(2) have "first l = None"
    using ListaSimple_inv_empty [of h l adrs] by (simp add: ListaSimple_size_def)
  with assms(2) show ?thesis
    by (simp add: ListaSimple_removeHead_empty)
qed

theorem removeHead_on_empty_throws_witness:
  "ListaSimple_run ([], new_ListaSimple) [AddHead (JNum 1), RemoveHead] =
     Some ([Return JUndefined, Return (JNum 1)],
           [\<lparr>item = JNum 1, sig = None\<rparr>], \<lparr>first = None, n = 0\<rparr>)
   \<and> ListaSimple_size \<lparr>first = None, n = 0\<rparr> = 0
   \<and> ListaSimple_removeHead ([\<lparr>item = JNum 1, sig = None\<rparr>], \<lparr>first = None, n = 0\<rparr>) =
       Some (Throw (ReferenceError ''Exception is not defined''),
             [\<lparr>item = JNum 1, sig = None\<rparr>], \<lparr>first = None, n = 0\<rparr>)"
proof -
  have r: "ListaSimple_run ([], new_ListaSimple) [AddHead (JNum 1), RemoveHead] =
     Some ([Return JUndefined, Return (JNum 1)],
           [\<lparr>item = JNum 1, sig = None\<rparr>], \<lparr>first = None, n = 0\<rparr>)"
    by (simp add: ListaSimple_addHead_eq ListaSimple_removeHead_def heap_get_def
        new_ListaSimple_def)
  have z: "ListaSimple_size \<lparr>first = None, n = 0\<rparr> = 0"
    by (simp add: ListaSimple_size_def)
  from removeHead_on_empty_throws [OF r z] r z show ?thesis
    by simp
qed

end
